theory Spec2Isabelle
  imports Complex_Main
begin

section \<open>Python values, exceptions and effects\<close>

text \<open>
  The two environments (\<^verbatim>\<open>src/DQN_working.py\<close> and \<^verbatim>\<open>src/PPO.py\<close>) are Python classes
  whose methods mutate the object and talk to the SUMO simulator through the \<^verbatim>\<open>traci\<close>
  client. A method is modelled as a function from the state before the call to the
  outcome and the state after it. The outcome is \<open>Inr v\<close> for \<^verbatim>\<open>return v\<close> and \<open>Inl x\<close>
  for an exception \<open>x\<close> that leaves the method; the state after an exception is the state
  at the moment it was raised (Python does not roll anything back).

  Only the exceptions the source can meet are modelled: \<^verbatim>\<open>traci.exceptions.TraCIException\<close>
  with its message, and the \<^verbatim>\<open>IndexError\<close> of \<^verbatim>\<open>[0]\<close> on an empty list.
\<close>

datatype exn = TraCIException string | IndexError

datatype pyval = PyInt int | PyFloat real | PyStr string

text \<open>An \<^verbatim>\<open>info\<close> dictionary literal, in the order its keys are written.\<close>

type_synonym info = "(string \<times> pyval) list"

text \<open>
  An observation is a \<^verbatim>\<open>numpy\<close> array of \<^verbatim>\<open>float32\<close>; its elements are modelled as reals
  (the detector counts and the phase index it holds are integers, which \<^verbatim>\<open>float32\<close>
  represents exactly below \<open>2 ^ 24\<close>).
\<close>

type_synonym observation = "real list"

type_synonym ('a, 's) py = "'s \<Rightarrow> (exn + 'a) \<times> 's"

definition py_return :: "'a \<Rightarrow> ('a, 's) py" where
  "py_return v s = (Inr v, s)"

definition py_raise :: "exn \<Rightarrow> ('a, 's) py" where
  "py_raise x s = (Inl x, s)"

definition py_bind :: "('a, 's) py \<Rightarrow> ('a \<Rightarrow> ('b, 's) py) \<Rightarrow> ('b, 's) py" where
  "py_bind m f s = (case m s of (Inl x, s') \<Rightarrow> (Inl x, s') | (Inr v, s') \<Rightarrow> f v s')"

text \<open>
  \<^verbatim>\<open>try: m  except traci.exceptions.TraCIException as e: h(e)\<close>. Any other exception
  passes through.
\<close>

definition py_except_traci :: "('a, 's) py \<Rightarrow> (string \<Rightarrow> ('a, 's) py) \<Rightarrow> ('a, 's) py" where
  "py_except_traci m h s =
     (case m s of
        (Inl (TraCIException msg), s') \<Rightarrow> h msg s'
      | (Inl IndexError, s') \<Rightarrow> (Inl IndexError, s')
      | (Inr v, s') \<Rightarrow> (Inr v, s'))"

section \<open>The TraCI client\<close>

text \<open>
  The simulator and the \<^verbatim>\<open>traci\<close> library are not part of the repository. They are a
  parameter of every method: a deterministic black box whose answer to a call may depend
  on everything that was sent to it before. The state of the outside world is therefore
  the trace of calls made so far (oldest first), and the box is a record of reply
  functions, each given the trace that ends with the call being answered. A reply
  \<open>Inl msg\<close> means that the call raises \<^verbatim>\<open>TraCIException(msg)\<close>.

  \<^verbatim>\<open>time.sleep\<close> is recorded in the trace as well, since the simulator may answer
  differently after a pause.
\<close>

text \<open>
  The connection label. \<^verbatim>\<open>PPO.py\<close> builds \<^verbatim>\<open>f"sumo_{id(self)}_{retry_count}"\<close>; the two
  numbers are kept instead of the formatted string. \<^verbatim>\<open>DQN_working.py\<close> passes no label.
\<close>

datatype label = DefaultLabel | SumoLabel nat int

text \<open>One program logic of a traffic light; only \<^verbatim>\<open>len(program.phases)\<close> is ever read.\<close>

record logic =
  phases :: "string list"

datatype cmd =
    Start "string list" label
  | Close
  | SimulationStep
  | GetTime
  | GetIDCount
  | TlGetIDList
  | TlGetPhase string
  | TlGetAllProgramLogics string
  | TlSetPhase string int
  | LaGetIDList
  | LaGetLastStepVehicleNumber string
  | Sleep int

type_synonym trace = "cmd list"

record traci =
  traci_isLoaded :: "trace \<Rightarrow> bool"
  traci_start :: "trace \<Rightarrow> string + unit"
  traci_close :: "trace \<Rightarrow> string + unit"
  traci_simulationStep :: "trace \<Rightarrow> string + unit"
  simulation_getTime :: "trace \<Rightarrow> string + real"
  vehicle_getIDCount :: "trace \<Rightarrow> string + int"
  trafficlight_getIDList :: "trace \<Rightarrow> string + string list"
  trafficlight_getPhase :: "trace \<Rightarrow> string + int"
  trafficlight_getAllProgramLogics :: "trace \<Rightarrow> string + logic list"
  trafficlight_setPhase :: "trace \<Rightarrow> string + unit"
  lanearea_getIDList :: "trace \<Rightarrow> string + string list"
  lanearea_getLastStepVehicleNumber :: "trace \<Rightarrow> string + int"

text \<open>
  A method's state is the object together with the trace. \<open>call reply c\<close> sends \<open>c\<close>:
  it appends \<open>c\<close> to the trace and returns or raises what the box replies.
\<close>

definition call :: "(trace \<Rightarrow> string + 'a) \<Rightarrow> cmd \<Rightarrow> ('a, 'e \<times> trace) py" where
  "call reply c s =
     (case s of (e, tr) \<Rightarrow>
        (case reply (tr @ [c]) of
           Inl msg \<Rightarrow> (Inl (TraCIException msg), (e, tr @ [c]))
         | Inr v \<Rightarrow> (Inr v, (e, tr @ [c]))))"

text \<open>\<^verbatim>\<open>traci.isLoaded()\<close> looks into the library's table of connections; nothing is sent.\<close>

definition isLoaded :: "traci \<Rightarrow> (bool, 'e \<times> trace) py" where
  "isLoaded sim s = (case s of (e, tr) \<Rightarrow> (Inr (traci_isLoaded sim tr), (e, tr)))"

definition sleep :: "int \<Rightarrow> (unit, 'e \<times> trace) py" where
  "sleep d s = (case s of (e, tr) \<Rightarrow> (Inr (), (e, tr @ [Sleep d])))"

text \<open>Reading and assigning attributes of \<^verbatim>\<open>self\<close>.\<close>

definition get_self :: "('e, 'e \<times> trace) py" where
  "get_self s = (case s of (e, tr) \<Rightarrow> (Inr e, (e, tr)))"

definition set_self :: "('e \<Rightarrow> 'e) \<Rightarrow> (unit, 'e \<times> trace) py" where
  "set_self f s = (case s of (e, tr) \<Rightarrow> (Inr (), (f e, tr)))"

text \<open>\<^verbatim>\<open>xs[0]\<close>.\<close>

definition first_item :: "'a list \<Rightarrow> ('a, 's) py" where
  "first_item xs = (case xs of [] \<Rightarrow> py_raise IndexError | x # _ \<Rightarrow> py_return x)"

section \<open>The reward (both files)\<close>

text \<open>
  \<^verbatim>\<open>state[:-1]\<close> is the slice from 0 to \<open>len - 1\<close> (empty for an empty array), and Python's
  \<^verbatim>\<open>sum\<close> adds from the left starting at 0.
\<close>

definition all_but_last :: "'a list \<Rightarrow> 'a list" where
  "all_but_last xs = take (length xs - 1) xs"

definition py_sum :: "real list \<Rightarrow> real" where
  "py_sum xs = foldl (+) 0 xs"

text \<open>\<^verbatim>\<open>SumoEnv._get_reward\<close>, the same in both files.\<close>

definition get_reward :: "observation \<Rightarrow> real" where
  "get_reward state = (let total_queue = py_sum (all_but_last state) in - total_queue)"

text \<open>
  The fields both variants of \<^verbatim>\<open>SumoEnv\<close> keep for the phase controller.
\<close>

record controller =
  min_green_steps :: int
  last_switch_step :: int
  current_simulation_step :: int

section \<open>\<^verbatim>\<open>DQN_working.py\<close>\<close>

record dqn_env = controller +
  config :: "string list"
  min_yellow_steps :: int
  min_pedestrian_steps :: int
  step_count :: int
  max_steps :: int
  cumulative_reward :: real
  total_queue :: real
  episode_count :: int
  episode_history :: "int list"
  reward_history :: "real list"
  queue_history :: "real list"
  braking_history :: "real list"

definition dqn_Sumo_config :: "string list" where
  "dqn_Sumo_config =
     [''sumo'', ''-c'', ''config/light.sumocfg'', ''--delay'', ''1000'',
      ''--lateral-resolution'', ''0'']"

text \<open>\<^verbatim>\<open>SumoEnv.__init__(config)\<close>.\<close>

definition dqn_init :: "string list \<Rightarrow> dqn_env" where
  "dqn_init cfg =
     \<lparr>min_green_steps = 5, last_switch_step = - 5, current_simulation_step = 0,
      config = cfg, min_yellow_steps = 3, min_pedestrian_steps = 5, step_count = 0,
      max_steps = 1000, cumulative_reward = 0, total_queue = 0, episode_count = 0,
      episode_history = [], reward_history = [], queue_history = [],
      braking_history = []\<rparr>"

text \<open>The default value of the parameter \<^verbatim>\<open>tls_id\<close>, also used by \<^verbatim>\<open>_get_state\<close>.\<close>

definition dqn_tls_id :: string where
  "dqn_tls_id = ''41896158''"

definition dqn_get_queue_length :: "traci \<Rightarrow> string \<Rightarrow> (int, dqn_env \<times> trace) py" where
  "dqn_get_queue_length sim detector_id =
     call (lanearea_getLastStepVehicleNumber sim) (LaGetLastStepVehicleNumber detector_id)"

definition dqn_get_current_phase :: "traci \<Rightarrow> string \<Rightarrow> (int, dqn_env \<times> trace) py" where
  "dqn_get_current_phase sim tls_id = call (trafficlight_getPhase sim) (TlGetPhase tls_id)"

text \<open>\<^verbatim>\<open>_get_state\<close>: nothing is caught here, the first failing query raises.\<close>

definition dqn_get_state :: "traci \<Rightarrow> (observation, dqn_env \<times> trace) py" where
  "dqn_get_state sim =
     py_bind (dqn_get_queue_length sim ''e2_2'') (\<lambda>q_EB_0.
     py_bind (dqn_get_queue_length sim ''e2_3'') (\<lambda>q_SB_0.
     py_bind (dqn_get_queue_length sim ''e2_4'') (\<lambda>q_SB_1.
     py_bind (dqn_get_queue_length sim ''e2_6'') (\<lambda>q_WB_0.
     py_bind (dqn_get_queue_length sim ''e2_11'') (\<lambda>q_NB_0.
     py_bind (dqn_get_queue_length sim ''e2_9'') (\<lambda>q_NB_1.
     py_bind (dqn_get_current_phase sim dqn_tls_id) (\<lambda>current_phase.
     py_return
       [of_int q_EB_0, of_int q_SB_0, of_int q_SB_1, of_int q_WB_0, of_int q_NB_0,
        of_int q_NB_1, of_int current_phase])))))))"

text \<open>
  \<^verbatim>\<open>_apply_action\<close>. The phase query stands before the \<^verbatim>\<open>try\<close>, so its failure leaves
  the method; the program query and the phase command are inside it. Python's \<^verbatim>\<open>%\<close> with a
  positive divisor is \<open>mod\<close> on \<open>int\<close>.
\<close>

definition dqn_apply_action :: "traci \<Rightarrow> int \<Rightarrow> string \<Rightarrow> (unit, dqn_env \<times> trace) py" where
  "dqn_apply_action sim action tls_id =
     (if action = 0 then py_return ()
      else if action = 1 then
        py_bind get_self (\<lambda>self.
        if current_simulation_step self - last_switch_step self \<ge> min_green_steps self then
          py_bind (dqn_get_current_phase sim tls_id) (\<lambda>current_phase.
          py_except_traci
            (py_bind (call (trafficlight_getAllProgramLogics sim) (TlGetAllProgramLogics tls_id))
               (\<lambda>logics.
             py_bind (first_item logics) (\<lambda>program.
             let num_phases = int (length (phases program)) in
             if num_phases = 0 then py_return ()
             else
               let next_phase = (current_phase + 1) mod num_phases in
               py_bind (call (trafficlight_setPhase sim) (TlSetPhase tls_id next_phase)) (\<lambda>_.
               py_bind get_self (\<lambda>self.
               set_self (\<lambda>e. e\<lparr>last_switch_step := current_simulation_step self\<rparr>))))))
            (\<lambda>msg. py_return ()))
        else py_return ())
      else py_return ())"

text \<open>
  \<^verbatim>\<open>step\<close>. The \<^verbatim>\<open>print\<close> of the episode summary writes to standard output only and is
  left out.
\<close>

definition dqn_step ::
  "traci \<Rightarrow> int \<Rightarrow> (observation \<times> real \<times> bool \<times> bool \<times> info, dqn_env \<times> trace) py" where
  "dqn_step sim action =
     py_bind (set_self (\<lambda>e. e\<lparr>current_simulation_step := step_count e\<rparr>)) (\<lambda>_.
     py_bind (dqn_apply_action sim action dqn_tls_id) (\<lambda>_.
     py_bind (call (traci_simulationStep sim) SimulationStep) (\<lambda>_.
     py_bind (dqn_get_state sim) (\<lambda>new_state.
     let reward = get_reward new_state in
     py_bind (set_self (\<lambda>e. e\<lparr>cumulative_reward := cumulative_reward e + reward\<rparr>)) (\<lambda>_.
     py_bind (set_self (\<lambda>e. e\<lparr>total_queue := total_queue e + py_sum (all_but_last new_state)\<rparr>))
       (\<lambda>_.
     py_bind (set_self (\<lambda>e. e\<lparr>step_count := step_count e + 1\<rparr>)) (\<lambda>_.
     py_bind get_self (\<lambda>self.
     let terminated = False;
         truncated = (step_count self \<ge> max_steps self);
         done = (terminated \<or> truncated)
     in
       if done then
         let avg_queue =
               (if step_count self > 0 then total_queue self / of_int (step_count self) else 0)
         in
           py_bind (set_self (\<lambda>e. e\<lparr>episode_history := episode_history e @ [episode_count e - 1]\<rparr>))
             (\<lambda>_.
           py_bind (set_self (\<lambda>e. e\<lparr>reward_history := reward_history e @ [cumulative_reward e]\<rparr>))
             (\<lambda>_.
           py_bind (set_self (\<lambda>e. e\<lparr>queue_history := queue_history e @ [avg_queue]\<rparr>)) (\<lambda>_.
           py_return
             (new_state, reward, terminated, truncated,
              [(''episode'', PyInt (episode_count self)),
               (''cumulative_reward'', PyFloat (cumulative_reward self)),
               (''avg_queue_length'', PyFloat avg_queue)]))))
       else py_return (new_state, reward, terminated, truncated, [])))))))))"


text \<open>\<^verbatim>\<open>close\<close>.\<close>

definition dqn_close :: "traci \<Rightarrow> (unit, dqn_env \<times> trace) py" where
  "dqn_close sim =
     py_bind (isLoaded sim) (\<lambda>loaded.
     if loaded then call (traci_close sim) Close else py_return ())"

section \<open>\<^verbatim>\<open>PPO.py\<close>\<close>

record ppo_env = controller +
  tls_id :: string
  yellow_duration :: int
  phase_start_step :: int
  current_phase :: int
  total_steps :: int
  connection_active :: bool
  connection_label :: label
  valid_ids :: bool
  max_retries :: int
  retry_delay :: int
  self_id :: nat

definition ppo_Sumo_config :: "string list" where
  "ppo_Sumo_config =
     [''sumo-gui'', ''-c'', ''config/light.sumocfg'', ''--step-length'', ''1'', ''--delay'', ''10'']"

definition STEPS_PER_EPISODE :: int where
  "STEPS_PER_EPISODE = 1500"

definition MIN_GREEN_SECONDS :: int where
  "MIN_GREEN_SECONDS = 10"

definition YELLOW_SECONDS :: int where
  "YELLOW_SECONDS = 3"

text \<open>
  \<^verbatim>\<open>SumoEnv.__init__()\<close>. \<open>self_id\<close> stands for \<^verbatim>\<open>id(self)\<close>, which Python fixes when the
  object is made; the label \<^verbatim>\<open>"default"\<close> is \<open>DefaultLabel\<close>.
\<close>

definition ppo_init :: "nat \<Rightarrow> ppo_env" where
  "ppo_init ident =
     \<lparr>min_green_steps = MIN_GREEN_SECONDS, last_switch_step = - MIN_GREEN_SECONDS,
      current_simulation_step = 0, tls_id = ''41896158'', yellow_duration = YELLOW_SECONDS,
      phase_start_step = 0, current_phase = 0, total_steps = STEPS_PER_EPISODE,
      connection_active = False, connection_label = DefaultLabel, valid_ids = False,
      max_retries = 5, retry_delay = 2, self_id = ident\<rparr>"

text \<open>The two query helpers catch the protocol exception and return a default.\<close>

definition ppo_get_queue_length :: "traci \<Rightarrow> string \<Rightarrow> (real, ppo_env \<times> trace) py" where
  "ppo_get_queue_length sim detector_id =
     py_except_traci
       (py_bind
          (call (lanearea_getLastStepVehicleNumber sim) (LaGetLastStepVehicleNumber detector_id))
          (\<lambda>n. py_return (of_int n)))
       (\<lambda>msg. py_return 0)"

definition ppo_get_current_phase :: "traci \<Rightarrow> string \<Rightarrow> (int, ppo_env \<times> trace) py" where
  "ppo_get_current_phase sim tls =
     py_except_traci (call (trafficlight_getPhase sim) (TlGetPhase tls)) (\<lambda>msg. py_return 0)"

text \<open>\<^verbatim>\<open>_get_state\<close>, with its own handler around the seven queries.\<close>

definition ppo_get_state :: "traci \<Rightarrow> (observation, ppo_env \<times> trace) py" where
  "ppo_get_state sim =
     py_bind get_self (\<lambda>self.
     if \<not> valid_ids self then py_return (replicate 7 0)
     else
       py_except_traci
         (py_bind (ppo_get_queue_length sim ''e2_2'') (\<lambda>q_EB_0.
          py_bind (ppo_get_queue_length sim ''e2_3'') (\<lambda>q_SB_0.
          py_bind (ppo_get_queue_length sim ''e2_4'') (\<lambda>q_SB_1.
          py_bind (ppo_get_queue_length sim ''e2_6'') (\<lambda>q_WB_0.
          py_bind (ppo_get_queue_length sim ''e2_11'') (\<lambda>q_NB_0.
          py_bind (ppo_get_queue_length sim ''e2_9'') (\<lambda>q_NB_1.
          py_bind (ppo_get_current_phase sim (tls_id self)) (\<lambda>current_phase.
          py_return
            [q_EB_0, q_SB_0, q_SB_1, q_WB_0, q_NB_0, q_NB_1, of_int current_phase]))))))))
         (\<lambda>msg. py_return (replicate 7 0)))"

text \<open>\<^verbatim>\<open>_validate_ids\<close>.\<close>

definition expected_detectors :: "string list" where
  "expected_detectors = [''e2_2'', ''e2_3'', ''e2_4'', ''e2_6'', ''e2_11'', ''e2_9'']"

definition ppo_validate_ids :: "traci \<Rightarrow> (unit, ppo_env \<times> trace) py" where
  "ppo_validate_ids sim =
     py_except_traci
       (py_bind (call (trafficlight_getIDList sim) TlGetIDList) (\<lambda>traffic_lights.
        py_bind (call (lanearea_getIDList sim) LaGetIDList) (\<lambda>detectors.
        py_bind get_self (\<lambda>self.
        if tls_id self \<notin> set traffic_lights then set_self (\<lambda>e. e\<lparr>valid_ids := False\<rparr>)
        else if \<not> list_all (\<lambda>d. d \<in> set detectors) expected_detectors then
          set_self (\<lambda>e. e\<lparr>valid_ids := False\<rparr>)
        else set_self (\<lambda>e. e\<lparr>valid_ids := True\<rparr>)))))
       (\<lambda>msg. set_self (\<lambda>e. e\<lparr>valid_ids := False\<rparr>))"

text \<open>\<^verbatim>\<open>_apply_action\<close>: the phase query sits inside the \<^verbatim>\<open>try\<close> here and never raises.\<close>

definition ppo_apply_action :: "traci \<Rightarrow> int \<Rightarrow> (unit, ppo_env \<times> trace) py" where
  "ppo_apply_action sim action =
     py_bind get_self (\<lambda>self.
     if \<not> valid_ids self then py_return ()
     else if action = 0 then py_return ()
     else if action = 1 then
       (if current_simulation_step self - last_switch_step self \<ge> min_green_steps self then
          py_except_traci
            (py_bind
               (call (trafficlight_getAllProgramLogics sim) (TlGetAllProgramLogics (tls_id self)))
               (\<lambda>logics.
             py_bind (first_item logics) (\<lambda>program.
             let num_phases = int (length (phases program)) in
             if num_phases = 0 then py_return ()
             else
               py_bind (ppo_get_current_phase sim (tls_id self)) (\<lambda>phase.
               let next_phase = (phase + 1) mod num_phases in
               py_bind (call (trafficlight_setPhase sim) (TlSetPhase (tls_id self) next_phase))
                 (\<lambda>_.
               set_self (\<lambda>e. e\<lparr>last_switch_step := current_simulation_step self\<rparr>))))))
            (\<lambda>msg. py_return ())
        else py_return ())
     else py_return ())"

text \<open>
  \<^verbatim>\<open>step\<close>. The \<^verbatim>\<open>try\<close> block either leaves the method with an error message (its two
  early returns and its handler build the same tuple from the message) or falls through;
  \<open>ppo_step_tick\<close> is that block and yields the message, if any. \<^verbatim>\<open>_get_state\<close> raises no
  protocol exception, so evaluating it inside or after the block is the same.
\<close>

definition ppo_step_tick :: "traci \<Rightarrow> (string option, ppo_env \<times> trace) py" where
  "ppo_step_tick sim =
     py_except_traci
       (py_bind (call (traci_simulationStep sim) SimulationStep) (\<lambda>_.
        py_bind (call (simulation_getTime sim) GetTime) (\<lambda>current_time.
        py_bind (call (vehicle_getIDCount sim) GetIDCount) (\<lambda>vehicle_count.
        py_bind get_self (\<lambda>self.
        if current_time < 0 then py_return (Some ''Negative simulation time'')
        else if vehicle_count = 0 \<and> current_simulation_step self < total_steps self then
          py_return (Some ''No vehicles'')
        else py_return None)))))
       (\<lambda>msg. py_return (Some msg))"

definition ppo_step ::
  "traci \<Rightarrow> int \<Rightarrow> (observation \<times> real \<times> bool \<times> bool \<times> info, ppo_env \<times> trace) py" where
  "ppo_step sim action =
     py_bind (set_self (\<lambda>e. e\<lparr>current_simulation_step := current_simulation_step e + 1\<rparr>))
       (\<lambda>_.
     py_bind (ppo_apply_action sim action) (\<lambda>_.
     py_bind (ppo_step_tick sim) (\<lambda>failure.
     case failure of
       Some msg \<Rightarrow>
         py_bind (ppo_get_state sim) (\<lambda>state.
         py_return (state, 0, True, False, [(''error'', PyStr msg)]))
     | None \<Rightarrow>
         py_bind (ppo_get_state sim) (\<lambda>new_state.
         let reward = get_reward new_state in
         py_bind get_self (\<lambda>self.
         let done = (current_simulation_step self \<ge> total_steps self);
             truncated = False
         in py_return (new_state, reward, done, truncated, []))))))"

text \<open>\<^verbatim>\<open>close\<close>.\<close>

definition ppo_close :: "traci \<Rightarrow> (unit, ppo_env \<times> trace) py" where
  "ppo_close sim =
     py_bind get_self (\<lambda>self.
     if connection_active self then
       py_except_traci
         (py_bind (call (traci_close sim) Close) (\<lambda>_.
          set_self (\<lambda>e. e\<lparr>connection_active := False\<rparr>)))
         (\<lambda>msg. py_return ())
     else py_return ())"




text \<open>
  The recursion ends because \<open>max_retries\<close> is never assigned while \<open>retry_count\<close> grows.
\<close>

lemmas py_defs = py_return_def py_raise_def py_bind_def py_except_traci_def call_def
  isLoaded_def sleep_def get_self_def set_self_def first_item_def






section \<open>A simulator and states to run the methods on\<close>

text \<open>
  \<open>quiet_sim\<close> accepts every call: one traffic light with a program of four phases that
  shows the phase it was last set to, the six detectors with queues 1, 0, 2, 0, 1, 0,
  four vehicles, and a clock that counts the ticks. The simulators further down differ
  from it in one reply each.
\<close>

definition loaded_after :: "trace \<Rightarrow> bool" where
  "loaded_after tr =
     foldl (\<lambda>b c. case c of Start _ _ \<Rightarrow> True | Close \<Rightarrow> False | _ \<Rightarrow> b) False tr"

definition phase_after :: "trace \<Rightarrow> int" where
  "phase_after tr = foldl (\<lambda>p c. case c of TlSetPhase _ n \<Rightarrow> n | _ \<Rightarrow> p) 0 tr"

definition queue_of :: "trace \<Rightarrow> int" where
  "queue_of tr =
     (if tr = [] then 0
      else case last tr of
        LaGetLastStepVehicleNumber d \<Rightarrow>
          (if d = ''e2_2'' then 1 else if d = ''e2_4'' then 2 else if d = ''e2_11'' then 1 else 0)
      | _ \<Rightarrow> 0)"

definition four_phases :: logic where
  "four_phases = \<lparr>phases = [''GGrr'', ''yyrr'', ''rrGG'', ''rryy'']\<rparr>"

definition quiet_sim :: traci where
  "quiet_sim =
     \<lparr>traci_isLoaded = loaded_after,
      traci_start = (\<lambda>tr. Inr ()),
      traci_close = (\<lambda>tr. Inr ()),
      traci_simulationStep = (\<lambda>tr. Inr ()),
      simulation_getTime = (\<lambda>tr. Inr (of_nat (length (filter (\<lambda>c. c = SimulationStep) tr)))),
      vehicle_getIDCount = (\<lambda>tr. Inr 4),
      trafficlight_getIDList = (\<lambda>tr. Inr [''41896158'']),
      trafficlight_getPhase = (\<lambda>tr. Inr (phase_after tr)),
      trafficlight_getAllProgramLogics = (\<lambda>tr. Inr [four_phases]),
      trafficlight_setPhase = (\<lambda>tr. Inr ()),
      lanearea_getIDList = (\<lambda>tr. Inr expected_detectors),
      lanearea_getLastStepVehicleNumber = (\<lambda>tr. Inr (queue_of tr))\<rparr>"

text \<open>Four steps after a switch: too early for the next one in either file.\<close>

definition dqn_early :: dqn_env where
  "dqn_early = (dqn_init dqn_Sumo_config)\<lparr>last_switch_step := 0, current_simulation_step := 4\<rparr>"

definition ppo_early :: ppo_env where
  "ppo_early =
     (ppo_init 0)\<lparr>valid_ids := True, connection_active := True, last_switch_step := 0,
       current_simulation_step := 4\<rparr>"

text \<open>
  Freshly made objects: the first step may switch at once. \<open>ppo_ready\<close> has connected
  and validated its identifiers, \<open>ppo_unvalidated\<close> has connected and failed validation.
\<close>

definition dqn_fresh :: dqn_env where
  "dqn_fresh = dqn_init dqn_Sumo_config"

definition ppo_ready :: ppo_env where
  "ppo_ready = (ppo_init 0)\<lparr>connection_active := True, valid_ids := True\<rparr>"

definition ppo_unvalidated :: ppo_env where
  "ppo_unvalidated = (ppo_init 0)\<lparr>connection_active := True\<rparr>"

text \<open>A simulator that refuses every phase command.\<close>

definition rejecting_sim :: traci where
  "rejecting_sim = quiet_sim\<lparr>trafficlight_setPhase := (\<lambda>tr. Inl ''phase index out of range'')\<rparr>"


definition empty_sim :: traci where
  "empty_sim = quiet_sim\<lparr>vehicle_getIDCount := (\<lambda>tr. Inr 0)\<rparr>"

text \<open>One step before the end of the episode.\<close>

definition ppo_last_step :: ppo_env where
  "ppo_last_step = ppo_ready\<lparr>current_simulation_step := 1499, last_switch_step := 1495\<rparr>"

definition dqn_last_step :: dqn_env where
  "dqn_last_step = dqn_fresh\<lparr>step_count := 999, episode_count := 1\<rparr>"

text \<open>
  A simulator that lacks four of the detectors, one that refuses to close, one that never
  starts, and one that starts at the sixth attempt.
\<close>

definition bare_sim :: traci where
  "bare_sim = quiet_sim\<lparr>lanearea_getIDList := (\<lambda>tr. Inr [''e2_2'', ''e2_3''])\<rparr>"

definition stuck_sim :: traci where
  "stuck_sim = quiet_sim\<lparr>traci_close := (\<lambda>tr. Inl ''close refused'')\<rparr>"




text \<open>The calls that one observation makes when nothing is skipped.\<close>

definition state_queries :: "string \<Rightarrow> trace" where
  "state_queries tls =
     [LaGetLastStepVehicleNumber ''e2_2'', LaGetLastStepVehicleNumber ''e2_3'',
      LaGetLastStepVehicleNumber ''e2_4'', LaGetLastStepVehicleNumber ''e2_6'',
      LaGetLastStepVehicleNumber ''e2_11'', LaGetLastStepVehicleNumber ''e2_9'',
      TlGetPhase tls]"


lemma quiet_sim_simps [simp]:
  "traci_isLoaded quiet_sim tr = loaded_after tr"
  "traci_start quiet_sim tr = Inr ()"
  "traci_close quiet_sim tr = Inr ()"
  "traci_simulationStep quiet_sim tr = Inr ()"
  "simulation_getTime quiet_sim tr = Inr (of_nat (length (filter (\<lambda>c. c = SimulationStep) tr)))"
  "vehicle_getIDCount quiet_sim tr = Inr 4"
  "trafficlight_getIDList quiet_sim tr = Inr [''41896158'']"
  "trafficlight_getPhase quiet_sim tr = Inr (phase_after tr)"
  "trafficlight_getAllProgramLogics quiet_sim tr = Inr [four_phases]"
  "trafficlight_setPhase quiet_sim tr = Inr ()"
  "lanearea_getIDList quiet_sim tr = Inr expected_detectors"
  "lanearea_getLastStepVehicleNumber quiet_sim tr = Inr (queue_of tr)"
  by (simp_all add: quiet_sim_def)

lemmas run_defs = py_defs Let_def quiet_sim_def dqn_fresh_def dqn_init_def dqn_tls_id_def
  ppo_ready_def ppo_init_def MIN_GREEN_SECONDS_def STEPS_PER_EPISODE_def YELLOW_SECONDS_def
  dqn_step_def dqn_apply_action_def dqn_get_state_def dqn_get_queue_length_def
  dqn_get_current_phase_def get_reward_def py_sum_def all_but_last_def
  ppo_step_def ppo_step_tick_def ppo_apply_action_def ppo_get_state_def
  ppo_get_queue_length_def ppo_get_current_phase_def queue_of_def phase_after_def
  state_queries_def four_phases_def

section \<open>The reward\<close>





section \<open>The phase controller\<close>

text \<open>
  C2. While fewer than \<open>min_green_steps\<close> steps have passed since \<open>last_switch_step\<close>,
  action 1 changes nothing in either file: the object is as before, and the trace is as
  before, so no phase command (no call at all) has been sent.
\<close>

theorem advance_before_dwell_noop:
  "(current_simulation_step d - last_switch_step d < min_green_steps d \<longrightarrow>
      dqn_apply_action sim 1 tls (d, tr) = (Inr (), (d, tr))) \<and>
   (current_simulation_step p - last_switch_step p < min_green_steps p \<longrightarrow>
      ppo_apply_action sim 1 (p, tr) = (Inr (), (p, tr)))"
  by (simp add: dqn_apply_action_def ppo_apply_action_def py_bind_def py_return_def get_self_def)

theorem advance_before_dwell_noop_witness:
  "current_simulation_step dqn_early - last_switch_step dqn_early < min_green_steps dqn_early \<and>
   dqn_apply_action quiet_sim 1 dqn_tls_id (dqn_early, []) = (Inr (), (dqn_early, [])) \<and>
   current_simulation_step ppo_early - last_switch_step ppo_early < min_green_steps ppo_early \<and>
   ppo_apply_action quiet_sim 1 (ppo_early, []) = (Inr (), (ppo_early, []))"
  using advance_before_dwell_noop [of dqn_early quiet_sim dqn_tls_id "[]" ppo_early]
  by (simp add: dqn_early_def ppo_early_def dqn_init_def ppo_init_def MIN_GREEN_SECONDS_def)

text \<open>
  C1, as amended. Let at least \<open>min_green_steps\<close> steps have passed since
  \<open>last_switch_step\<close>, let the simulator answer the phase query with \<open>ph\<close> and the program
  query with a list whose first program has a non-empty list of phases, and let it accept
  the phase command. Then action 1 sends exactly one phase command, for phase
  \<open>(ph + 1) mod len(program.phases)\<close>, and sets \<open>last_switch_step\<close> to
  \<open>current_simulation_step\<close>: in \<^verbatim>\<open>DQN_working.py\<close> always, in \<^verbatim>\<open>PPO.py\<close> when \<open>valid_ids\<close> is
  true. The two files send the two queries in opposite order.
\<close>

theorem advance_after_dwell_switches:
  "(min_green_steps d \<le> current_simulation_step d - last_switch_step d \<and>
    trafficlight_getPhase sim (tr @ [TlGetPhase tls]) = Inr ph \<and>
    trafficlight_getAllProgramLogics sim (tr @ [TlGetPhase tls, TlGetAllProgramLogics tls]) =
      Inr (program # others) \<and>
    phases program \<noteq> [] \<and>
    trafficlight_setPhase sim
      (tr @ [TlGetPhase tls, TlGetAllProgramLogics tls,
             TlSetPhase tls ((ph + 1) mod int (length (phases program)))]) = Inr ()
    \<longrightarrow>
    dqn_apply_action sim 1 tls (d, tr) =
      (Inr (),
       (d\<lparr>last_switch_step := current_simulation_step d\<rparr>,
        tr @ [TlGetPhase tls, TlGetAllProgramLogics tls,
              TlSetPhase tls ((ph + 1) mod int (length (phases program)))]))) \<and>
   (valid_ids p \<and>
    min_green_steps p \<le> current_simulation_step p - last_switch_step p \<and>
    trafficlight_getAllProgramLogics sim (tr @ [TlGetAllProgramLogics (tls_id p)]) =
      Inr (program # others) \<and>
    phases program \<noteq> [] \<and>
    trafficlight_getPhase sim (tr @ [TlGetAllProgramLogics (tls_id p), TlGetPhase (tls_id p)]) =
      Inr ph \<and>
    trafficlight_setPhase sim
      (tr @ [TlGetAllProgramLogics (tls_id p), TlGetPhase (tls_id p),
             TlSetPhase (tls_id p) ((ph + 1) mod int (length (phases program)))]) = Inr ()
    \<longrightarrow>
    ppo_apply_action sim 1 (p, tr) =
      (Inr (),
       (p\<lparr>last_switch_step := current_simulation_step p\<rparr>,
        tr @ [TlGetAllProgramLogics (tls_id p), TlGetPhase (tls_id p),
              TlSetPhase (tls_id p) ((ph + 1) mod int (length (phases program)))])))"
proof (intro conjI impI)
  assume "min_green_steps d \<le> current_simulation_step d - last_switch_step d \<and>
    trafficlight_getPhase sim (tr @ [TlGetPhase tls]) = Inr ph \<and>
    trafficlight_getAllProgramLogics sim (tr @ [TlGetPhase tls, TlGetAllProgramLogics tls]) =
      Inr (program # others) \<and>
    phases program \<noteq> [] \<and>
    trafficlight_setPhase sim
      (tr @ [TlGetPhase tls, TlGetAllProgramLogics tls,
             TlSetPhase tls ((ph + 1) mod int (length (phases program)))]) = Inr ()"
  then show "dqn_apply_action sim 1 tls (d, tr) =
      (Inr (),
       (d\<lparr>last_switch_step := current_simulation_step d\<rparr>,
        tr @ [TlGetPhase tls, TlGetAllProgramLogics tls,
              TlSetPhase tls ((ph + 1) mod int (length (phases program)))]))"
    by (simp add: dqn_apply_action_def dqn_get_current_phase_def py_defs Let_def)
next
  assume "valid_ids p \<and>
    min_green_steps p \<le> current_simulation_step p - last_switch_step p \<and>
    trafficlight_getAllProgramLogics sim (tr @ [TlGetAllProgramLogics (tls_id p)]) =
      Inr (program # others) \<and>
    phases program \<noteq> [] \<and>
    trafficlight_getPhase sim (tr @ [TlGetAllProgramLogics (tls_id p), TlGetPhase (tls_id p)]) =
      Inr ph \<and>
    trafficlight_setPhase sim
      (tr @ [TlGetAllProgramLogics (tls_id p), TlGetPhase (tls_id p),
             TlSetPhase (tls_id p) ((ph + 1) mod int (length (phases program)))]) = Inr ()"
  then show "ppo_apply_action sim 1 (p, tr) =
      (Inr (),
       (p\<lparr>last_switch_step := current_simulation_step p\<rparr>,
        tr @ [TlGetAllProgramLogics (tls_id p), TlGetPhase (tls_id p),
              TlSetPhase (tls_id p) ((ph + 1) mod int (length (phases program)))]))"
    by (simp add: ppo_apply_action_def ppo_get_current_phase_def py_defs Let_def)
qed

text \<open>From phase 3 of four the light goes to phase 0; from phase 1 to phase 2.\<close>

theorem advance_after_dwell_switches_witness:
  "dqn_apply_action quiet_sim 1 dqn_tls_id (dqn_fresh, [TlSetPhase dqn_tls_id 3]) =
     (Inr (),
      (dqn_fresh\<lparr>last_switch_step := 0\<rparr>,
       [TlSetPhase dqn_tls_id 3, TlGetPhase dqn_tls_id, TlGetAllProgramLogics dqn_tls_id,
        TlSetPhase dqn_tls_id 0])) \<and>
   ppo_apply_action quiet_sim 1 (ppo_ready, [TlSetPhase ''41896158'' 1]) =
     (Inr (),
      (ppo_ready\<lparr>last_switch_step := 0\<rparr>,
       [TlSetPhase ''41896158'' 1, TlGetAllProgramLogics ''41896158'', TlGetPhase ''41896158'',
        TlSetPhase ''41896158'' 2]))"
  using advance_after_dwell_switches [of dqn_fresh quiet_sim "[TlSetPhase dqn_tls_id 3]"
      dqn_tls_id 3 four_phases "[]" ppo_ready]
    advance_after_dwell_switches [of dqn_fresh quiet_sim "[TlSetPhase ''41896158'' 1]"
      dqn_tls_id 1 four_phases "[]" ppo_ready]
  by (simp add: dqn_fresh_def ppo_ready_def dqn_init_def ppo_init_def MIN_GREEN_SECONDS_def
      phase_after_def four_phases_def dqn_tls_id_def)

text \<open>
  C1 as it was stated fails in \<^verbatim>\<open>PPO.py\<close>, whose \<^verbatim>\<open>_apply_action\<close> returns at once while
  \<open>valid_ids\<close> is false: the dwell time has passed, the simulator would report four phases
  and accept every call, and yet nothing is sent and \<open>last_switch_step\<close> keeps its value.
\<close>

theorem advance_unvalidated_counterexample:
  "min_green_steps ppo_unvalidated
     \<le> current_simulation_step ppo_unvalidated - last_switch_step ppo_unvalidated \<and>
   trafficlight_getAllProgramLogics quiet_sim [TlGetAllProgramLogics (tls_id ppo_unvalidated)]
     = Inr [four_phases] \<and>
   length (phases four_phases) = 4 \<and>
   ppo_apply_action quiet_sim 1 (ppo_unvalidated, []) = (Inr (), (ppo_unvalidated, [])) \<and>
   last_switch_step ppo_unvalidated \<noteq> current_simulation_step ppo_unvalidated"
  by (simp add: ppo_apply_action_def ppo_unvalidated_def ppo_init_def MIN_GREEN_SECONDS_def
      four_phases_def py_defs)

text \<open>
  C7. When action 1 passes the dwell-time check and the program query raises the protocol
  exception, or the simulator refuses the phase command that is sent (for the phase after
  the reported one, modulo the length of the first program), the object is exactly as
  before in both files; in particular \<open>last_switch_step\<close> has not moved. In \<^verbatim>\<open>PPO.py\<close>
  the method then returns normally, whatever was sent.
\<close>

theorem failed_switch_keeps_state:
  "(min_green_steps d \<le> current_simulation_step d - last_switch_step d \<and>
    (isl (trafficlight_getAllProgramLogics sim (tr @ [TlGetPhase tls, TlGetAllProgramLogics tls])) \<or>
     trafficlight_getPhase sim (tr @ [TlGetPhase tls]) = Inr ph \<and>
     trafficlight_getAllProgramLogics sim (tr @ [TlGetPhase tls, TlGetAllProgramLogics tls]) =
       Inr (program # others) \<and>
     isl (trafficlight_setPhase sim
            (tr @ [TlGetPhase tls, TlGetAllProgramLogics tls,
                   TlSetPhase tls ((ph + 1) mod int (length (phases program)))])))
    \<longrightarrow> fst (snd (dqn_apply_action sim 1 tls (d, tr))) = d) \<and>
   (min_green_steps p \<le> current_simulation_step p - last_switch_step p \<and>
    (isl (trafficlight_getAllProgramLogics sim (tr @ [TlGetAllProgramLogics (tls_id p)])) \<or>
     trafficlight_getAllProgramLogics sim (tr @ [TlGetAllProgramLogics (tls_id p)]) =
       Inr (program # others) \<and>
     isl (trafficlight_setPhase sim
            (tr @ [TlGetAllProgramLogics (tls_id p), TlGetPhase (tls_id p),
                   TlSetPhase (tls_id p)
                     (((case trafficlight_getPhase sim
                               (tr @ [TlGetAllProgramLogics (tls_id p), TlGetPhase (tls_id p)]) of
                          Inl msg \<Rightarrow> 0 | Inr n \<Rightarrow> n) + 1)
                      mod int (length (phases program)))])))
    \<longrightarrow> ppo_apply_action sim 1 (p, tr) \<in>
          {(Inr (), (p, tr @ [TlGetAllProgramLogics (tls_id p)])),
           (Inr (), (p, tr @ [TlGetAllProgramLogics (tls_id p), TlGetPhase (tls_id p),
                   TlSetPhase (tls_id p)
                     (((case trafficlight_getPhase sim
                               (tr @ [TlGetAllProgramLogics (tls_id p), TlGetPhase (tls_id p)]) of
                          Inl msg \<Rightarrow> 0 | Inr n \<Rightarrow> n) + 1)
                      mod int (length (phases program)))])),
           (Inr (), (p, tr))})"
  by (auto simp add: dqn_apply_action_def ppo_apply_action_def dqn_get_current_phase_def
      ppo_get_current_phase_def py_defs Let_def isl_def split: sum.splits)

theorem failed_switch_keeps_state_witness:
  "dqn_apply_action rejecting_sim 1 dqn_tls_id (dqn_fresh, []) =
     (Inr (), (dqn_fresh,
        [TlGetPhase dqn_tls_id, TlGetAllProgramLogics dqn_tls_id, TlSetPhase dqn_tls_id 1])) \<and>
   fst (snd (dqn_apply_action rejecting_sim 1 dqn_tls_id (dqn_fresh, []))) = dqn_fresh \<and>
   ppo_apply_action rejecting_sim 1 (ppo_ready, []) =
     (Inr (), (ppo_ready,
        [TlGetAllProgramLogics ''41896158'', TlGetPhase ''41896158'',
         TlSetPhase ''41896158'' 1]))"
  using failed_switch_keeps_state [of dqn_fresh rejecting_sim "[]" dqn_tls_id 0 four_phases "[]"
      ppo_ready]
  by (simp add: rejecting_sim_def run_defs)

section \<open>Steps and episodes\<close>

lemma call_state: "call reply c (e, tr) = (r, s') \<Longrightarrow> s' = (e, tr @ [c])"
  by (auto simp: call_def split: sum.splits)

lemma dqn_apply_action_env:
  "dqn_apply_action sim a tls (d, tr) = (r, (d', tr')) \<Longrightarrow>
     d' = d \<or> d' = d\<lparr>last_switch_step := current_simulation_step d\<rparr>"
  by (auto simp: dqn_apply_action_def dqn_get_current_phase_def py_defs Let_def
      split: if_splits sum.splits list.splits exn.splits)

lemma dqn_get_state_env: "dqn_get_state sim (d, tr) = (r, (d', tr')) \<Longrightarrow> d' = d"
  by (auto simp: dqn_get_state_def dqn_get_queue_length_def dqn_get_current_phase_def py_defs
      split: sum.splits)

lemma dqn_step_flags:
  assumes "dqn_step sim a (d, tr) = (Inr (obs, rew, terminated, truncated, more_info), (d', tr'))"
  shows "\<not> terminated \<and> (truncated \<longleftrightarrow> max_steps d \<le> step_count d + 1) \<and>
    (more_info = [] \<longleftrightarrow> \<not> truncated) \<and> step_count d' = step_count d + 1"
proof -
  obtain r1 d1 tr1 where a: "dqn_apply_action sim a dqn_tls_id
      (d\<lparr>current_simulation_step := step_count d\<rparr>, tr) = (r1, (d1, tr1))"
    by (metis prod.exhaust)
  then have d1: "step_count d1 = step_count d \<and> max_steps d1 = max_steps d"
    by (auto dest: dqn_apply_action_env)
  obtain r2 s2 where t: "call (traci_simulationStep sim) SimulationStep (d1, tr1) = (r2, s2)"
    by (metis prod.exhaust)
  then have s2: "s2 = (d1, tr1 @ [SimulationStep])"
    by (rule call_state)
  obtain r3 d3 tr3 where g: "dqn_get_state sim (d1, tr1 @ [SimulationStep]) = (r3, (d3, tr3))"
    by (metis prod.exhaust)
  then have d3: "d3 = d1"
    by (rule dqn_get_state_env)
  show ?thesis
    using assms a t g d1
    unfolding s2 d3
    by (auto simp: dqn_step_def py_bind_def py_return_def set_self_def get_self_def Let_def
        split: sum.splits if_splits)
qed

lemma ppo_get_queue_length_eq:
  "ppo_get_queue_length sim det (p, tr) =
     (Inr (case lanearea_getLastStepVehicleNumber sim (tr @ [LaGetLastStepVehicleNumber det]) of
             Inl msg \<Rightarrow> 0 | Inr n \<Rightarrow> of_int n),
      (p, tr @ [LaGetLastStepVehicleNumber det]))"
  by (simp add: ppo_get_queue_length_def py_defs split: sum.splits)

lemma ppo_get_current_phase_eq:
  "ppo_get_current_phase sim tls (p, tr) =
     (Inr (case trafficlight_getPhase sim (tr @ [TlGetPhase tls]) of
             Inl msg \<Rightarrow> 0 | Inr n \<Rightarrow> n),
      (p, tr @ [TlGetPhase tls]))"
  by (simp add: ppo_get_current_phase_def py_defs split: sum.splits)

lemma ppo_get_state_total:
  "\<exists>obs. ppo_get_state sim (p, tr) =
     (Inr obs, (p, tr @ (if valid_ids p then state_queries (tls_id p) else []))) \<and>
     length obs = 7"
  by (simp add: ppo_get_state_def py_bind_def py_return_def get_self_def py_except_traci_def
      ppo_get_queue_length_eq ppo_get_current_phase_eq state_queries_def)

lemma ppo_apply_action_env:
  "ppo_apply_action sim a (p, tr) = (r, (p', tr')) \<Longrightarrow>
     p' = p \<or> p' = p\<lparr>last_switch_step := current_simulation_step p\<rparr>"
  by (auto simp: ppo_apply_action_def ppo_get_current_phase_def py_defs Let_def
      split: if_splits sum.splits list.splits exn.splits)

lemma ppo_step_tick_total:
  "\<exists>r ticks. ppo_step_tick sim (p, tr) = (Inr r, (p, tr @ ticks)) \<and>
     ticks \<in> {[SimulationStep], [SimulationStep, GetTime], [SimulationStep, GetTime, GetIDCount]}"
  by (auto simp: ppo_step_tick_def py_defs split: sum.splits)


lemma ppo_step_flags:
  assumes "ppo_step sim a (p, tr) = (Inr (obs, rew, terminated, truncated, more_info), s')"
  shows "\<not> truncated \<and>
    (more_info = [] \<longrightarrow> (terminated \<longleftrightarrow> total_steps p \<le> current_simulation_step p + 1))"
proof -
  obtain r1 p1 tr1 where a: "ppo_apply_action sim a
      (p\<lparr>current_simulation_step := current_simulation_step p + 1\<rparr>, tr) = (r1, (p1, tr1))"
    by (metis prod.exhaust)
  then have p1: "current_simulation_step p1 = current_simulation_step p + 1 \<and>
      total_steps p1 = total_steps p"
    by (auto dest: ppo_apply_action_env)
  obtain r2 ticks where t: "ppo_step_tick sim (p1, tr1) = (Inr r2, (p1, tr1 @ ticks))"
    using ppo_step_tick_total by blast
  obtain st where g: "ppo_get_state sim (p1, tr1 @ ticks) =
      (Inr st, (p1, (tr1 @ ticks) @ (if valid_ids p1 then state_queries (tls_id p1) else [])))"
    using ppo_get_state_total by blast
  show ?thesis
    using assms a t g p1
    by (auto simp: ppo_step_def py_bind_def py_return_def set_self_def get_self_def Let_def
        split: sum.splits option.splits)
qed




text \<open>
  C4, as amended. A step of \<^verbatim>\<open>DQN_working.py\<close> that returns has \<^verbatim>\<open>truncated = True\<close> exactly
  when the incremented step counter has reached \<open>max_steps\<close>, and \<^verbatim>\<open>terminated = False\<close>.
  A step of \<^verbatim>\<open>PPO.py\<close> always has \<^verbatim>\<open>truncated = False\<close>; when no failure ended it (empty
  \<^verbatim>\<open>info\<close>) it reports the exhausted budget through \<^verbatim>\<open>terminated\<close> instead, which is true
  exactly when the incremented counter has reached \<open>total_steps\<close>.
\<close>

theorem step_budget_flags:
  "(dqn_step sim a (d, tr) = (Inr (obs, rew, terminated, truncated, more_info), s) \<longrightarrow>
      (truncated \<longleftrightarrow> max_steps d \<le> step_count d + 1) \<and> \<not> terminated) \<and>
   (ppo_step sim a (p, tr) = (Inr (obs', rew', terminated', truncated', more_info'), s') \<longrightarrow>
      \<not> truncated' \<and>
      (more_info' = [] \<longrightarrow>
         (terminated' \<longleftrightarrow> total_steps p \<le> current_simulation_step p + 1)))"
proof -
  have "(truncated \<longleftrightarrow> max_steps d \<le> step_count d + 1) \<and> \<not> terminated"
    if "dqn_step sim a (d, tr) = (Inr (obs, rew, terminated, truncated, more_info), s)"
    using that
      dqn_step_flags [of sim a d tr obs rew terminated truncated more_info "fst s" "snd s"]
    by simp
  moreover have "\<not> truncated' \<and>
      (more_info' = [] \<longrightarrow>
         (terminated' \<longleftrightarrow> total_steps p \<le> current_simulation_step p + 1))"
    if "ppo_step sim a (p, tr) = (Inr (obs', rew', terminated', truncated', more_info'), s')"
    using that by (rule ppo_step_flags)
  ultimately show ?thesis
    by blast
qed

theorem step_budget_flags_witness:
  "step_count dqn_last_step + 1 = max_steps dqn_last_step \<and>
   dqn_step quiet_sim 0 (dqn_last_step, []) =
     (Inr ([1, 0, 2, 0, 1, 0, 0], - 4, False, True,
           [(''episode'', PyInt 1), (''cumulative_reward'', PyFloat (- 4)),
            (''avg_queue_length'', PyFloat (4 / 1000))]),
      (dqn_last_step\<lparr>current_simulation_step := 999, step_count := 1000,
         cumulative_reward := - 4, total_queue := 4, episode_history := [0],
         reward_history := [- 4], queue_history := [4 / 1000]\<rparr>,
       SimulationStep # state_queries dqn_tls_id)) \<and>
   ppo_step quiet_sim 0 (ppo_ready, []) =
     (Inr ([1, 0, 2, 0, 1, 0, 0], - 4, False, False, []),
      (ppo_ready\<lparr>current_simulation_step := 1\<rparr>,
       [SimulationStep, GetTime, GetIDCount] @ state_queries ''41896158''))"
  using step_budget_flags [where sim = quiet_sim and a = 0 and d = dqn_last_step and tr = "[]"
      and obs = "[1, 0, 2, 0, 1, 0, 0]" and rew = "- 4" and terminated = False
      and truncated = True
      and more_info = "[(''episode'', PyInt 1), (''cumulative_reward'', PyFloat (- 4)),
            (''avg_queue_length'', PyFloat (4 / 1000))]"
      and s = "(dqn_last_step\<lparr>current_simulation_step := 999, step_count := 1000,
         cumulative_reward := - 4, total_queue := 4, episode_history := [0],
         reward_history := [- 4], queue_history := [4 / 1000]\<rparr>,
       SimulationStep # state_queries dqn_tls_id)"
      and p = ppo_ready and obs' = "[1, 0, 2, 0, 1, 0, 0]" and rew' = "- 4"
      and terminated' = False and truncated' = False and more_info' = "[]"
      and s' = "(ppo_ready\<lparr>current_simulation_step := 1\<rparr>,
       [SimulationStep, GetTime, GetIDCount] @ state_queries ''41896158'')"]
  by (simp add: run_defs dqn_last_step_def)

text \<open>
  C4 as it was stated fails in \<^verbatim>\<open>PPO.py\<close>: the step that reaches \<open>total_steps\<close> returns
  \<^verbatim>\<open>terminated = True\<close> and \<^verbatim>\<open>truncated = False\<close>.
\<close>

theorem ppo_budget_counterexample:
  "current_simulation_step ppo_last_step + 1 = total_steps ppo_last_step \<and>
   ppo_step quiet_sim 0 (ppo_last_step, []) =
     (Inr ([1, 0, 2, 0, 1, 0, 0], - 4, True, False, []),
      (ppo_last_step\<lparr>current_simulation_step := 1500\<rparr>,
       [SimulationStep, GetTime, GetIDCount] @ state_queries ''41896158''))"
  by (simp add: run_defs ppo_last_step_def)

text \<open>
  C10. Whenever \<^verbatim>\<open>step\<close> of \<^verbatim>\<open>DQN_working.py\<close> returns, \<^verbatim>\<open>terminated\<close> is false; the
  episode ends only through \<^verbatim>\<open>truncated\<close>, which is true exactly when the incremented
  step counter has reached \<open>max_steps\<close>, and only then is the episode summary put into
  \<^verbatim>\<open>info\<close>.
\<close>

theorem dqn_never_terminated:
  "dqn_step sim a (d, tr) = (Inr (obs, rew, terminated, truncated, more_info), s) \<Longrightarrow>
     \<not> terminated \<and> (truncated \<longleftrightarrow> max_steps d \<le> step_count d + 1) \<and>
     (more_info = [] \<longleftrightarrow> \<not> truncated)"
  using dqn_step_flags [of sim a d tr obs rew terminated truncated more_info "fst s" "snd s"]
  by simp

theorem dqn_never_terminated_witness:
  "dqn_step empty_sim 1 (dqn_fresh, []) =
     (Inr ([1, 0, 2, 0, 1, 0, 1], - 4, False, False, []),
      (dqn_fresh\<lparr>last_switch_step := 0, cumulative_reward := - 4, total_queue := 4,
         step_count := 1\<rparr>,
       [TlGetPhase dqn_tls_id, TlGetAllProgramLogics dqn_tls_id, TlSetPhase dqn_tls_id 1,
        SimulationStep] @ state_queries dqn_tls_id))"
  using dqn_never_terminated [of empty_sim 1 dqn_fresh "[]" "[1, 0, 2, 0, 1, 0, 1]" "- 4"
      False False "[]"
      "(dqn_fresh\<lparr>last_switch_step := 0, cumulative_reward := - 4, total_queue := 4,
         step_count := 1\<rparr>,
       [TlGetPhase dqn_tls_id, TlGetAllProgramLogics dqn_tls_id, TlSetPhase dqn_tls_id 1,
        SimulationStep] @ state_queries dqn_tls_id)"]
  by (simp add: run_defs empty_sim_def)

section \<open>Connecting and closing\<close>









text \<open>
  C8. While \<open>valid_ids\<close> is false, \<^verbatim>\<open>_get_state\<close> returns seven zeros and sends nothing.
  \<^verbatim>\<open>_validate_ids\<close> never raises: it sends the two list queries (the second only if the
  first succeeds), assigns \<open>valid_ids\<close> and nothing else, so the connection stays as it
  is; the flag is true exactly when both queries succeed, the traffic light is listed
  and all six detectors are.
\<close>

theorem invalid_ids_zero_observation:
  "(\<not> valid_ids p \<longrightarrow> ppo_get_state sim (p, tr) = (Inr (replicate 7 0), (p, tr))) \<and>
   (\<exists>ok ext.
      ppo_validate_ids sim (p, tr) = (Inr (), (p\<lparr>valid_ids := ok\<rparr>, tr @ ext)) \<and>
      ext \<in> {[TlGetIDList], [TlGetIDList, LaGetIDList]} \<and>
      (ok \<longleftrightarrow>
        (\<exists>traffic_lights detectors.
           trafficlight_getIDList sim (tr @ [TlGetIDList]) = Inr traffic_lights \<and>
           lanearea_getIDList sim (tr @ [TlGetIDList, LaGetIDList]) = Inr detectors \<and>
           tls_id p \<in> set traffic_lights \<and> set expected_detectors \<subseteq> set detectors)))"
proof (intro conjI impI)
  assume "\<not> valid_ids p"
  then show "ppo_get_state sim (p, tr) = (Inr (replicate 7 0), (p, tr))"
    by (simp add: ppo_get_state_def py_bind_def py_return_def get_self_def)
next
  show "\<exists>ok ext.
      ppo_validate_ids sim (p, tr) = (Inr (), (p\<lparr>valid_ids := ok\<rparr>, tr @ ext)) \<and>
      ext \<in> {[TlGetIDList], [TlGetIDList, LaGetIDList]} \<and>
      (ok \<longleftrightarrow>
        (\<exists>traffic_lights detectors.
           trafficlight_getIDList sim (tr @ [TlGetIDList]) = Inr traffic_lights \<and>
           lanearea_getIDList sim (tr @ [TlGetIDList, LaGetIDList]) = Inr detectors \<and>
           tls_id p \<in> set traffic_lights \<and> set expected_detectors \<subseteq> set detectors))"
  proof (cases "trafficlight_getIDList sim (tr @ [TlGetIDList])")
    case (Inl msg)
    then have "ppo_validate_ids sim (p, tr) = (Inr (), (p\<lparr>valid_ids := False\<rparr>, tr @ [TlGetIDList]))"
      by (simp add: ppo_validate_ids_def py_defs)
    with Inl show ?thesis
      by (intro exI [of _ False] exI [of _ "[TlGetIDList]"]) simp
  next
    case tl: (Inr traffic_lights)
    show ?thesis
    proof (cases "lanearea_getIDList sim (tr @ [TlGetIDList, LaGetIDList])")
      case (Inl msg)
      with tl have "ppo_validate_ids sim (p, tr) =
          (Inr (), (p\<lparr>valid_ids := False\<rparr>, tr @ [TlGetIDList, LaGetIDList]))"
        by (simp add: ppo_validate_ids_def py_defs)
      with Inl show ?thesis
        by (intro exI [of _ False] exI [of _ "[TlGetIDList, LaGetIDList]"]) simp
    next
      case (Inr detectors)
      with tl have "ppo_validate_ids sim (p, tr) =
          (Inr (), (p\<lparr>valid_ids := (tls_id p \<in> set traffic_lights \<and>
              set expected_detectors \<subseteq> set detectors)\<rparr>, tr @ [TlGetIDList, LaGetIDList]))"
        by (cases "tls_id p \<in> set traffic_lights";
            cases "set expected_detectors \<subseteq> set detectors")
          (simp_all add: ppo_validate_ids_def py_defs list_all_iff subset_eq)
      with tl Inr show ?thesis
        by (intro exI [of _ "tls_id p \<in> set traffic_lights \<and>
              set expected_detectors \<subseteq> set detectors"] exI [of _ "[TlGetIDList, LaGetIDList]"])
          simp
    qed
  qed
qed

theorem invalid_ids_zero_observation_witness:
  "ppo_validate_ids bare_sim (ppo_ready, []) =
     (Inr (), (ppo_unvalidated, [TlGetIDList, LaGetIDList])) \<and>
   ppo_get_state bare_sim (ppo_unvalidated, [TlGetIDList, LaGetIDList]) =
     (Inr [0, 0, 0, 0, 0, 0, 0], (ppo_unvalidated, [TlGetIDList, LaGetIDList])) \<and>
   connection_active ppo_unvalidated"
  using invalid_ids_zero_observation [of ppo_unvalidated bare_sim "[TlGetIDList, LaGetIDList]"]
  by (simp add: ppo_validate_ids_def ppo_unvalidated_def bare_sim_def expected_detectors_def
      run_defs numeral_eq_Suc)

text \<open>
  C9, as amended. \<^verbatim>\<open>close\<close> of \<^verbatim>\<open>PPO.py\<close> never raises the protocol exception. In both
  files \<^verbatim>\<open>close\<close> does nothing when there is no session (\<open>connection_active\<close> false;
  \<^verbatim>\<open>traci.isLoaded()\<close> false). When there is one, it sends the close command, and if the
  simulator accepts it (and, for \<^verbatim>\<open>DQN_working.py\<close>, the library then reports no
  connection) the environment is closed and a second \<^verbatim>\<open>close\<close> returns without sending
  anything.
\<close>

theorem close_twice:
  "fst (ppo_close sim (p, tr)) = Inr () \<and>
   (\<not> connection_active p \<longrightarrow> ppo_close sim (p, tr) = (Inr (), (p, tr))) \<and>
   (connection_active p \<and> traci_close sim (tr @ [Close]) = Inr () \<longrightarrow>
      ppo_close sim (p, tr) = (Inr (), (p\<lparr>connection_active := False\<rparr>, tr @ [Close])) \<and>
      ppo_close sim (p\<lparr>connection_active := False\<rparr>, tr @ [Close]) =
        (Inr (), (p\<lparr>connection_active := False\<rparr>, tr @ [Close]))) \<and>
   (\<not> traci_isLoaded sim tr \<longrightarrow> dqn_close sim (d, tr) = (Inr (), (d, tr))) \<and>
   (traci_isLoaded sim tr \<and> traci_close sim (tr @ [Close]) = Inr () \<and>
    \<not> traci_isLoaded sim (tr @ [Close]) \<longrightarrow>
      dqn_close sim (d, tr) = (Inr (), (d, tr @ [Close])) \<and>
      dqn_close sim (d, tr @ [Close]) = (Inr (), (d, tr @ [Close])))"
  by (simp add: ppo_close_def dqn_close_def py_defs split: sum.splits)

theorem close_twice_witness:
  "ppo_close quiet_sim (ppo_ready, [Start ppo_Sumo_config (SumoLabel 0 0)]) =
     (Inr (), (ppo_ready\<lparr>connection_active := False\<rparr>,
               [Start ppo_Sumo_config (SumoLabel 0 0), Close])) \<and>
   ppo_close quiet_sim (ppo_ready\<lparr>connection_active := False\<rparr>,
       [Start ppo_Sumo_config (SumoLabel 0 0), Close]) =
     (Inr (), (ppo_ready\<lparr>connection_active := False\<rparr>,
               [Start ppo_Sumo_config (SumoLabel 0 0), Close])) \<and>
   dqn_close quiet_sim (dqn_fresh, [Start dqn_Sumo_config DefaultLabel]) =
     (Inr (), (dqn_fresh, [Start dqn_Sumo_config DefaultLabel, Close])) \<and>
   dqn_close quiet_sim (dqn_fresh, [Start dqn_Sumo_config DefaultLabel, Close]) =
     (Inr (), (dqn_fresh, [Start dqn_Sumo_config DefaultLabel, Close])) \<and>
   dqn_close quiet_sim (dqn_fresh, []) = (Inr (), (dqn_fresh, [])) \<and>
   ppo_close quiet_sim (ppo_init 0, []) = (Inr (), (ppo_init 0, []))"
  using close_twice [of quiet_sim ppo_ready "[Start ppo_Sumo_config (SumoLabel 0 0)]" dqn_fresh]
    close_twice [of quiet_sim "ppo_init 0" "[]" dqn_fresh]
    close_twice [of quiet_sim ppo_ready "[Start dqn_Sumo_config DefaultLabel]" dqn_fresh]
  by (simp add: loaded_after_def ppo_ready_def ppo_init_def)

text \<open>
  C9 as it was stated fails in \<^verbatim>\<open>PPO.py\<close> when the simulator refuses the close command:
  the handler swallows the exception before \<open>connection_active\<close> is cleared, so after one
  \<^verbatim>\<open>close\<close>, and after a second one, the environment is still marked active.
\<close>

theorem close_refused_counterexample:
  "connection_active ppo_ready \<and>
   ppo_close stuck_sim (ppo_ready, []) = (Inr (), (ppo_ready, [Close])) \<and>
   ppo_close stuck_sim (ppo_ready, [Close]) = (Inr (), (ppo_ready, [Close, Close]))"
  by (simp add: ppo_close_def stuck_sim_def run_defs)

end
